theory Spec2Isabelle
  imports Complex_Main
begin

section \<open>Cold start prediction engine of backend/server.py\<close>

text \<open>
  The theory embeds the class \<open>ColdStartPredictor\<close> of \<open>backend/server.py\<close>: the pattern
  analysis of one job (\<open>_analyze_job_pattern\<close>, \<open>_detect_burst_pattern\<close>), the grouping
  of a history by job (\<open>analyze_job_history\<close>) and the generation of predictions
  (\<open>_generate_prediction\<close>, \<open>predict_next_jobs\<close>).

  Conventions of the embedding.
  \<^item> A \<open>datetime\<close> is the real number of seconds since \<open>datetime.min\<close>; it is in range up
    to \<open>datetime.max\<close>. A \<open>timedelta\<close> is a real number of seconds. The difference of two
    datetimes is exact; the sum of a datetime and a timedelta is exact when it is in range
    and raises \<open>OverflowError\<close> when it is not.
  \<^item> The double-precision operations of the analysis are a parameter, the record
    \<open>numerics\<close>: \<open>timedelta.total_seconds\<close>, \<open>np.mean\<close>, \<open>np.std\<close>, the product and the
    quotient of two floats, and the constructor \<open>timedelta(seconds=x)\<close>, which rounds a
    float to whole microseconds. A float is the real number it denotes. Nothing is assumed
    of these operations, so that what is proved of the analysis holds whatever they
    round to; \<open>exact_ops\<close> is the instance without rounding error, for the concrete
    histories.
  \<^item> In the generation of a prediction the delay between the next run and the reference
    time is the exact difference of the two datetimes.
  \<^item> A pattern dictionary is a record. The keys \<open>type\<close> and \<open>confidence\<close>, which every
    dictionary built by the analysis has, are plain fields; the keys that only some kinds
    have are optional fields, \<open>None\<close> for an absent key.
  \<^item> Every operation of the source that can raise is a value \<open>Inl e\<close> of the result type
    \<open>error + 'a\<close>: \<open>max\<close> of an empty sequence, the last element of an empty list, the
    subscript of an absent key, a datetime out of range.
  \<^item> The specification calls the pattern kinds \<open>periodic\<close> and \<open>irregular\<close>; the source
    tags them \<open>cron\<close> and \<open>on_demand\<close>. The other two kinds, \<open>bursty\<close> and
    \<open>insufficient_data\<close>, have the same name in both.
\<close>

subsection \<open>Data model\<close>

datatype error = ValueError | KeyError | IndexError | OverflowError

record JobExecution =
  exec_id :: string
  job_id :: string
  timestamp :: real
  duration_ms :: int
  retries :: int
  status :: string
  compute_time_sec :: real
  job_type :: string

record pattern =
  type :: string
  confidence :: real
  interval_seconds :: "real option"
  next_predicted :: "real option"
  burst_indicators :: "bool option"
  avg_interval :: "real option"
  variability :: "real option"

record PredictionResult =
  job_id :: string
  predicted_run_time_window :: string
  confidence_score :: real
  action :: string
  reasoning :: string


subsection \<open>Library operations the source calls\<close>

text \<open>
  The floating-point operations of the analysis. \<open>total_seconds d\<close> is the float of the
  timedelta \<open>d\<close>; \<open>np_mean\<close> and \<open>np_std\<close> are \<open>np.mean\<close> and \<open>np.std\<close> (population
  standard deviation) of a list of floats; \<open>float_mul\<close> and \<open>float_div\<close> are \<open>*\<close> and \<open>/\<close>
  on floats, the float literal of the source being passed as the real it is written as;
  \<open>timedelta_seconds x\<close> is \<open>timedelta(seconds=x)\<close>, \<open>None\<close> when the constructor raises
  \<open>OverflowError\<close>.
\<close>

record numerics =
  total_seconds :: "real \<Rightarrow> real"
  np_mean :: "real list \<Rightarrow> real"
  np_std :: "real list \<Rightarrow> real"
  float_mul :: "real \<Rightarrow> real \<Rightarrow> real"
  float_div :: "real \<Rightarrow> real \<Rightarrow> real"
  timedelta_seconds :: "real \<Rightarrow> real option"

text \<open>
  The range of \<open>datetime\<close>: from \<open>datetime.min\<close>, 0001-01-01 00:00:00, to \<open>datetime.max\<close>,
  9999-12-31 23:59:59.999999, which is 3652059 days less one microsecond later.
  \<open>dt + td\<close> raises \<open>OverflowError\<close> out of this range.
\<close>

definition datetime_max :: real where
  "datetime_max = 3652059 * 86400 - 1 / 1000000"

definition in_datetime_range :: "real \<Rightarrow> bool" where
  "in_datetime_range t = (0 \<le> t \<and> t \<le> datetime_max)"

definition datetime_add :: "real \<Rightarrow> real \<Rightarrow> error + real" where
  "datetime_add dt td = (if in_datetime_range (dt + td) then Inr (dt + td) else Inl OverflowError)"

text \<open>\<open>max\<close> of a sequence: \<open>ValueError\<close> on the empty one.\<close>

fun py_max :: "nat list \<Rightarrow> error + nat" where
  "py_max [] = Inl ValueError"
| "py_max (x # xs) = Inr (fold max xs x)"

text \<open>\<open>xs[-1]\<close>: \<open>IndexError\<close> on the empty list.\<close>

fun py_last :: "'a list \<Rightarrow> error + 'a" where
  "py_last [] = Inl IndexError"
| "py_last (x # xs) = Inr (last (x # xs))"

text \<open>
  \<open>int(x)\<close> truncates towards zero; \<open>x % y\<close> on floats takes the sign of the divisor.
\<close>

definition py_int :: "real \<Rightarrow> int" where
  "py_int x = (if 0 \<le> x then \<lfloor>x\<rfloor> else \<lceil>x\<rceil>)"

definition py_fmod :: "real \<Rightarrow> real \<Rightarrow> real" where
  "py_fmod x y = x - y * of_int \<lfloor>x / y\<rfloor>"

text \<open>Decimal rendering of integers: \<open>{n}\<close>, \<open>{n:02d}\<close> and \<open>{x:.0f}\<close> of an f-string.\<close>

definition digit_char :: "nat \<Rightarrow> char" where
  "digit_char d = ''0123456789'' ! d"

fun str_nat :: "nat \<Rightarrow> string" where
  "str_nat n = (if n < 10 then [digit_char n]
                else str_nat (n div 10) @ [digit_char (n mod 10)])"

declare str_nat.simps [simp del]

definition str_int :: "int \<Rightarrow> string" where
  "str_int i = (if i < 0 then ''-'' @ str_nat (nat (- i)) else str_nat (nat i))"

definition format_02d :: "int \<Rightarrow> string" where
  "format_02d i =
     (let sign = (if i < 0 then ''-'' else '''');
          digits = str_nat (nat \<bar>i\<bar>)
      in sign @ replicate (2 - length sign - length digits) (CHR ''0'') @ digits)"

definition round_half_even :: "real \<Rightarrow> int" where
  "round_half_even x =
     (let f = \<lfloor>x\<rfloor>; d = x - of_int f
      in if d < 1 / 2 then f
         else if 1 / 2 < d then f + 1
         else if even f then f else f + 1)"

definition format_0f :: "real \<Rightarrow> string" where
  "format_0f x = (if x < 0 then ''-'' else '''') @ str_nat (nat (round_half_even \<bar>x\<bar>))"

text \<open>
  \<open>sorted(xs, key=..., reverse=True)\<close> on a real-valued key: descending, and stable (elements
  with equal keys keep the order they have in \<open>xs\<close>).
\<close>

definition sorted_reverse :: "('a \<Rightarrow> real) \<Rightarrow> 'a list \<Rightarrow> 'a list" where
  "sorted_reverse key xs = sort_key (\<lambda>x. - key x) xs"



subsection \<open>Pattern analysis\<close>

definition window_size :: real where
  "window_size = 10 * 60"

text \<open>
  The loop of \<open>_detect_burst_pattern\<close> over the executions \<open>todo\<close> still to visit: the
  end of a window is a datetime sum, so the loop raises \<open>OverflowError\<close> at an execution
  less than 10 minutes before \<open>datetime.max\<close>.
\<close>

fun window_counts :: "JobExecution list \<Rightarrow> JobExecution list \<Rightarrow> error + nat list" where
  "window_counts executions [] = Inr []"
| "window_counts executions (exec # todo) =
     (let window_start = timestamp exec in
      case datetime_add window_start window_size of
        Inl err \<Rightarrow> Inl err
      | Inr window_end \<Rightarrow>
          (let count = length (filter (\<lambda>e. window_start \<le> timestamp e
                                          \<and> timestamp e \<le> window_end) executions)
           in case window_counts executions todo of
                Inl err \<Rightarrow> Inl err
              | Inr time_windows \<Rightarrow> Inr (count # time_windows)))"

definition detect_burst_pattern :: "JobExecution list \<Rightarrow> error + bool" where
  "detect_burst_pattern executions =
     (if length executions < 5 then Inr False
      else
        case window_counts executions executions of
          Inl err \<Rightarrow> Inl err
        | Inr time_windows \<Rightarrow>
            (case py_max time_windows of
               Inl err \<Rightarrow> Inl err
             | Inr m \<Rightarrow> Inr (3 \<le> m)))"

definition intervals_of :: "numerics \<Rightarrow> JobExecution list \<Rightarrow> real list" where
  "intervals_of ops executions =
     map (\<lambda>i. total_seconds ops (timestamp (executions ! i) - timestamp (executions ! (i - 1))))
         [1..<length executions]"

definition insufficient_data :: pattern where
  "insufficient_data =
     \<lparr>type = ''insufficient_data'', confidence = 0.1, interval_seconds = None,
      next_predicted = None, burst_indicators = None, avg_interval = None,
      variability = None\<rparr>"

definition analyze_job_pattern :: "numerics \<Rightarrow> JobExecution list \<Rightarrow> error + pattern" where
  "analyze_job_pattern ops executions =
     (if length executions < 2 then Inr insufficient_data
      else
        let intervals = intervals_of ops executions in
        if intervals = [] then Inr insufficient_data
        else
          let avg_interval = np_mean ops intervals;
              std_interval = np_std ops intervals
          in
          if std_interval < float_mul ops avg_interval 0.1 \<and> 3 \<le> length executions then
            (case py_last executions of
               Inl err \<Rightarrow> Inl err
             | Inr l \<Rightarrow>
                 (case timedelta_seconds ops avg_interval of
                    None \<Rightarrow> Inl OverflowError
                  | Some td \<Rightarrow>
                      (case datetime_add (timestamp l) td of
                         Inl err \<Rightarrow> Inl err
                       | Inr next_run \<Rightarrow>
                           Inr \<lparr>type = ''cron'', confidence = 0.9,
                                interval_seconds = Some avg_interval,
                                next_predicted = Some next_run,
                                burst_indicators = None, avg_interval = None,
                                variability = None\<rparr>)))
          else
            (case detect_burst_pattern executions of
               Inl err \<Rightarrow> Inl err
             | Inr True \<Rightarrow>
                 Inr \<lparr>type = ''bursty'', confidence = 0.7, interval_seconds = None,
                      next_predicted = None, burst_indicators = Some True,
                      avg_interval = None, variability = None\<rparr>
             | Inr False \<Rightarrow>
                 Inr \<lparr>type = ''on_demand'', confidence = 0.4, interval_seconds = None,
                      next_predicted = None, burst_indicators = None,
                      avg_interval = Some avg_interval,
                      variability =
                        Some (if 0 < avg_interval
                              then float_div ops std_interval avg_interval
                              else 1)\<rparr>))"




subsection \<open>Prediction generation\<close>

definition generate_prediction ::
  "string \<Rightarrow> pattern \<Rightarrow> real \<Rightarrow> error + PredictionResult option" where
  "generate_prediction jid p current_time =
     (if type p = ''cron'' \<and> next_predicted p \<noteq> None then
        (let next_run = the (next_predicted p);
             time_diff = next_run - current_time
         in if 0 \<le> time_diff \<and> time_diff \<le> 300 then
              (case interval_seconds p of
                 None \<Rightarrow> Inl KeyError
               | Some iv \<Rightarrow>
                   Inr (Some
                     \<lparr>job_id = jid,
                      predicted_run_time_window =
                        str_int (py_int (time_diff / 60)) @ '':''
                        @ format_02d (py_int (py_fmod time_diff 60)) @ '' minutes'',
                      confidence_score = confidence p,
                      action = (if 0.7 < confidence p then ''prewarm'' else ''skip''),
                      reasoning =
                        ''Cron pattern detected with '' @ format_0f iv
                        @ ''s intervals''\<rparr>))
            else Inr None)
      else if type p = ''bursty'' \<and> 0.6 < confidence p then
        Inr (Some
          \<lparr>job_id = jid,
           predicted_run_time_window = ''1-3 minutes'',
           confidence_score = confidence p,
           action = ''prewarm'',
           reasoning = ''Burst pattern detected - high activity expected''\<rparr>)
      else Inr None)"

text \<open>
  The loop of \<open>predict_next_jobs\<close> over \<open>analysis["patterns"].items()\<close>, and the sort that
  follows it.
\<close>

fun collect_predictions ::
  "(string \<times> pattern) list \<Rightarrow> real \<Rightarrow> error + PredictionResult list" where
  "collect_predictions [] current_time = Inr []"
| "collect_predictions ((jid, p) # ps) current_time =
     (case generate_prediction jid p current_time of
        Inl err \<Rightarrow> Inl err
      | Inr prediction \<Rightarrow>
          (case collect_predictions ps current_time of
             Inl err \<Rightarrow> Inl err
           | Inr predictions \<Rightarrow>
               Inr (case prediction of
                      None \<Rightarrow> predictions
                    | Some r \<Rightarrow> r # predictions)))"

definition predict_from_patterns ::
  "(string \<times> pattern) list \<Rightarrow> real \<Rightarrow> error + PredictionResult list" where
  "predict_from_patterns ps current_time =
     (case collect_predictions ps current_time of
        Inl err \<Rightarrow> Inl err
      | Inr predictions \<Rightarrow> Inr (sorted_reverse confidence_score predictions))"

text \<open>
  \<open>predict_next_jobs\<close>, with the result of the database query (the executions of the last
  seven days) as the parameter \<open>job_executions\<close>.
\<close>


subsection \<open>The tests of the specification\<close>

text \<open>
  The periodic test: the standard deviation of the gaps is below a tenth of their mean,
  and there are at least 3 records. The standard deviation, the mean and the tenth of
  the mean are the floats that the analysis computes.
\<close>

definition periodic_test :: "numerics \<Rightarrow> JobExecution list \<Rightarrow> bool" where
  "periodic_test ops executions =
     (np_std ops (intervals_of ops executions)
        < float_mul ops (np_mean ops (intervals_of ops executions)) 0.1
      \<and> 3 \<le> length executions)"

text \<open>
  The burst test as the specification words it: there are at least 5 records, and the
  10-minute window that starts at the timestamp of some record, both ends included, holds
  3 or more of the records.
\<close>

definition spec_burst_test :: "JobExecution list \<Rightarrow> bool" where
  "spec_burst_test executions =
     (5 \<le> length executions
      \<and> (\<exists>a \<in> set executions.
            3 \<le> length (filter (\<lambda>e. timestamp a \<le> timestamp e
                                     \<and> timestamp e \<le> timestamp a + 600) executions)))"

text \<open>
  The datetime sums of the analysis. The burst detection of a group of 5 or more records
  adds 10 minutes to every timestamp; the periodic branch adds the rounded mean gap to
  the last timestamp.
\<close>

definition windows_in_range :: "JobExecution list \<Rightarrow> bool" where
  "windows_in_range executions =
     (length executions < 5
      \<or> (\<forall>e \<in> set executions. in_datetime_range (timestamp e + 600)))"

definition next_run_in_range :: "numerics \<Rightarrow> JobExecution list \<Rightarrow> bool" where
  "next_run_in_range ops executions =
     (case timedelta_seconds ops (np_mean ops (intervals_of ops executions)) of
        None \<Rightarrow> False
      | Some td \<Rightarrow> in_datetime_range (timestamp (last executions) + td))"

definition additions_in_range :: "numerics \<Rightarrow> JobExecution list \<Rightarrow> bool" where
  "additions_in_range ops executions =
     (if periodic_test ops executions then next_run_in_range ops executions
      else windows_in_range executions)"

text \<open>
  The mean and the population standard deviation of a list of reals, without rounding:
  what \<open>np.mean\<close> and \<open>np.std\<close> approximate.
\<close>

definition exact_mean :: "real list \<Rightarrow> real" where
  "exact_mean xs = sum_list xs / real (length xs)"

definition exact_std :: "real list \<Rightarrow> real" where
  "exact_std xs = sqrt (exact_mean (map (\<lambda>x. (x - exact_mean xs)\<^sup>2) xs))"

text \<open>
  The rendering of a delay as \<open>minutes:seconds\<close>: the whole seconds of the delay, split
  into minutes in decimal and seconds on two digits.
\<close>

definition spec_minutes_seconds :: "real \<Rightarrow> string" where
  "spec_minutes_seconds delta =
     (let whole = nat \<lfloor>delta\<rfloor>; minutes = whole div 60; seconds = whole mod 60
      in str_nat minutes @ '':'' @ [digit_char (seconds div 10), digit_char (seconds mod 10)])"

text \<open>
  The window description that the specification quotes for a bursty job. Its dash is the
  en dash U+2013, written here as the three bytes of its UTF-8 encoding.
\<close>

definition spec_burst_window :: string where
  "spec_burst_window = ''imminent, within 1'' @ [CHR 0xE2, CHR 0x80, CHR 0x93] @ ''3 minutes''"

text \<open>
  The data model of the specification: a periodic summary carries its interval and its
  predicted next run.
\<close>

definition spec_summary :: "pattern \<Rightarrow> bool" where
  "spec_summary p =
     (type p = ''cron'' \<longrightarrow> interval_seconds p \<noteq> None \<and> next_predicted p \<noteq> None)"

subsection \<open>Sample data\<close>

text \<open>A successful run of job \<open>jid\<close> at time \<open>t\<close>, for the concrete histories below.\<close>

definition run_at :: "string \<Rightarrow> real \<Rightarrow> JobExecution" where
  "run_at jid t =
     \<lparr>exec_id = '''', JobExecution.job_id = jid, timestamp = t, duration_ms = 0,
      retries = 0, status = ''success'', compute_time_sec = 0, job_type = ''cron''\<rparr>"

text \<open>Patterns, predictions and a history of two jobs for the concrete cases below.\<close>

definition sample_cron :: pattern where
  "sample_cron =
     \<lparr>type = ''cron'', confidence = 0.9, interval_seconds = Some 900,
      next_predicted = Some 2700, burst_indicators = None, avg_interval = None,
      variability = None\<rparr>"

definition sample_bursty :: pattern where
  "sample_bursty =
     \<lparr>type = ''bursty'', confidence = 0.7, interval_seconds = None,
      next_predicted = None, burst_indicators = Some True, avg_interval = None,
      variability = None\<rparr>"

definition sample_on_demand :: pattern where
  "sample_on_demand =
     \<lparr>type = ''on_demand'', confidence = 0.4, interval_seconds = None,
      next_predicted = None, burst_indicators = None, avg_interval = Some 2500,
      variability = Some (24 / 25)\<rparr>"

definition etl_result :: PredictionResult where
  "etl_result =
     \<lparr>job_id = ''etl'', predicted_run_time_window = ''1:40 minutes'',
      confidence_score = 0.9, action = ''prewarm'',
      reasoning = ''Cron pattern detected with 900s intervals''\<rparr>"

definition burst_result :: "string \<Rightarrow> PredictionResult" where
  "burst_result jid =
     \<lparr>job_id = jid, predicted_run_time_window = ''1-3 minutes'',
      confidence_score = 0.7, action = ''prewarm'',
      reasoning = ''Burst pattern detected - high activity expected''\<rparr>"


text \<open>
  Arithmetic without rounding error: the numerics on inputs whose floats, sums, means and
  standard deviations are representable, as they are in the histories below. The
  constructor \<open>timedelta(seconds=x)\<close> rounds to the nearest microsecond, a tie to the even
  one, and raises beyond 999999999 days.
\<close>

definition exact_ops :: numerics where
  "exact_ops =
     \<lparr>total_seconds = (\<lambda>d. d),
      np_mean = exact_mean,
      np_std = exact_std,
      float_mul = (\<lambda>x y. x * y),
      float_div = (\<lambda>x y. x / y),
      timedelta_seconds =
        (\<lambda>x. if \<bar>x\<bar> < 86400 * 1000000000
             then Some (of_int (round_half_even (x * 1000000)) / 1000000)
             else None)\<rparr>"

text \<open>
  Three hourly runs that end at 23:00 on the last day of \<open>datetime\<close>, and five runs at
  23:50 of that day.
\<close>

definition late_hourly :: "JobExecution list" where
  "late_hourly =
     [run_at ''late'' 315537886800, run_at ''late'' 315537890400, run_at ''late'' 315537894000]"

definition late_cluster :: "JobExecution list" where
  "late_cluster =
     [run_at ''late'' 315537897000, run_at ''late'' 315537897000, run_at ''late'' 315537897000,
      run_at ''late'' 315537897000, run_at ''late'' 315537897000]"

text \<open>Three runs whose mean gap, 10.0078125 seconds, is not a whole number of microseconds.\<close>

definition uneven_runs :: "JobExecution list" where
  "uneven_runs = [run_at ''sync'' 0, run_at ''sync'' 10.015625, run_at ''sync'' 20.015625]"

section \<open>Properties\<close>

subsection \<open>Library operations and the shape of the analysis\<close>

lemma py_max_nonempty: "xs \<noteq> [] \<Longrightarrow> py_max xs = Inr (Max (set xs))"
  by (cases xs) (simp_all add: Max.set_eq_fold [symmetric])

lemma py_last_nonempty: "xs \<noteq> [] \<Longrightarrow> py_last xs = Inr (last xs)"
  by (cases xs) simp_all

lemma window_counts_eq:
  "window_counts executions todo =
     (if \<forall>e \<in> set todo. in_datetime_range (timestamp e + 600)
      then Inr (map (\<lambda>a. length (filter (\<lambda>e. timestamp a \<le> timestamp e
                                              \<and> timestamp e \<le> timestamp a + 600) executions))
                    todo)
      else Inl OverflowError)"
  by (induction todo) (simp_all add: datetime_add_def window_size_def Let_def)

lemma detect_burst_pattern_eq:
  "detect_burst_pattern executions =
     (if windows_in_range executions then Inr (spec_burst_test executions)
      else Inl OverflowError)"
proof (cases "length executions < 5")
  case True
  then show ?thesis
    by (simp add: detect_burst_pattern_def spec_burst_test_def windows_in_range_def)
next
  case False
  then have ne: "executions \<noteq> []" by auto
  let ?cnt = "\<lambda>a. length (filter (\<lambda>e. timestamp a \<le> timestamp e
                  \<and> timestamp e \<le> timestamp a + 600) executions)"
  have m: "py_max (map ?cnt executions) = Inr (Max (set (map ?cnt executions)))"
    using ne by (intro py_max_nonempty) simp
  have "(3 \<le> Max (set (map ?cnt executions))) = (\<exists>a \<in> set executions. 3 \<le> ?cnt a)"
    using ne by (subst Max_ge_iff) auto
  with False m show ?thesis
    by (simp add: detect_burst_pattern_def spec_burst_test_def windows_in_range_def
        window_counts_eq)
qed

lemma intervals_of_empty_iff: "intervals_of ops executions = [] \<longleftrightarrow> length executions < 2"
  by (auto simp add: intervals_of_def)

lemma analyze_job_pattern_cases:
  "analyze_job_pattern ops executions =
     (if length executions < 2 then Inr insufficient_data
      else if periodic_test ops executions then
        (case timedelta_seconds ops (np_mean ops (intervals_of ops executions)) of
           None \<Rightarrow> Inl OverflowError
         | Some td \<Rightarrow>
             if in_datetime_range (timestamp (last executions) + td) then
               Inr \<lparr>type = ''cron'', confidence = 0.9,
                    interval_seconds = Some (np_mean ops (intervals_of ops executions)),
                    next_predicted = Some (timestamp (last executions) + td),
                    burst_indicators = None, avg_interval = None, variability = None\<rparr>
             else Inl OverflowError)
      else if \<not> windows_in_range executions then Inl OverflowError
      else if spec_burst_test executions then
        Inr \<lparr>type = ''bursty'', confidence = 0.7, interval_seconds = None,
             next_predicted = None, burst_indicators = Some True,
             avg_interval = None, variability = None\<rparr>
      else
        Inr \<lparr>type = ''on_demand'', confidence = 0.4, interval_seconds = None,
             next_predicted = None, burst_indicators = None,
             avg_interval = Some (np_mean ops (intervals_of ops executions)),
             variability =
               Some (if 0 < np_mean ops (intervals_of ops executions)
                     then float_div ops (np_std ops (intervals_of ops executions))
                            (np_mean ops (intervals_of ops executions))
                     else 1)\<rparr>)"
proof (cases "length executions < 2")
  case True
  then show ?thesis by (simp add: analyze_job_pattern_def)
next
  case False
  then have ne: "executions \<noteq> []" and iv: "intervals_of ops executions \<noteq> []"
    by (auto simp add: intervals_of_empty_iff)
  show ?thesis
    using False iv
    by (simp add: analyze_job_pattern_def Let_def py_last_nonempty [OF ne]
        detect_burst_pattern_eq periodic_test_def datetime_add_def
        split: option.splits)
qed

lemma analyze_job_pattern_returns:
  "(\<exists>p. analyze_job_pattern ops executions = Inr p)
     \<longleftrightarrow> (length executions < 2 \<or> additions_in_range ops executions)"
  by (simp add: analyze_job_pattern_cases additions_in_range_def next_run_in_range_def
      split: option.splits)

lemma analyze_job_pattern_error:
  "analyze_job_pattern ops executions = Inl e \<Longrightarrow> e = OverflowError"
  by (simp add: analyze_job_pattern_cases split: if_splits option.splits)

lemma intervals_of_Nil: "intervals_of ops [] = []"
  by (simp add: intervals_of_def)

lemma intervals_of_single: "intervals_of ops [a] = []"
  by (simp add: intervals_of_def)

lemma intervals_of_Cons2:
  "intervals_of ops (a # b # xs)
     = total_seconds ops (timestamp b - timestamp a) # intervals_of ops (b # xs)"
proof -
  have "[1..<length (a # b # xs)] = 1 # map Suc [1..<length (b # xs)]"
    by (simp add: upt_conv_Cons map_Suc_upt del: upt_Suc)
  then show ?thesis
    by (simp add: intervals_of_def del: upt_Suc)
qed

lemmas intervals_of_simps = intervals_of_Nil intervals_of_single intervals_of_Cons2

lemma exact_std_less_iff:
  "0 \<le> c \<Longrightarrow> exact_std xs < c \<longleftrightarrow> exact_mean (map (\<lambda>x. (x - exact_mean xs)\<^sup>2) xs) < c\<^sup>2"
proof -
  assume c: "0 \<le> c"
  have "exact_std xs < c
          \<longleftrightarrow> sqrt (exact_mean (map (\<lambda>x. (x - exact_mean xs)\<^sup>2) xs)) < sqrt (c\<^sup>2)"
    using c by (simp add: exact_std_def)
  then show ?thesis by (simp only: real_sqrt_less_iff)
qed

lemma exact_std_eqI:
  assumes "0 \<le> s" and "exact_mean (map (\<lambda>x. (x - exact_mean xs)\<^sup>2) xs) = s\<^sup>2"
  shows "exact_std xs = s"
  using assms by (simp add: exact_std_def)

lemma exact_mean_const:
  assumes "xs \<noteq> []" and "\<forall>x \<in> set xs. x = g"
  shows "exact_mean xs = g"
proof -
  have "xs = replicate (length xs) g"
    using assms(2) by (simp add: replicate_length_same)
  then have "sum_list xs = real (length xs) * g"
    by (metis sum_list_replicate)
  with assms(1) show ?thesis by (simp add: exact_mean_def)
qed

lemma exact_std_const:
  assumes "xs \<noteq> []" and "\<forall>x \<in> set xs. x = g"
  shows "exact_std xs = 0"
proof -
  have m: "exact_mean xs = g" using assms by (rule exact_mean_const)
  have "map (\<lambda>x. (x - exact_mean xs)\<^sup>2) xs = map (\<lambda>x. 0) xs"
    using assms(2) by (intro map_cong) (simp_all add: m)
  then have "exact_std xs = sqrt (exact_mean (map (\<lambda>x. 0) xs))"
    by (simp only: exact_std_def)
  also have "\<dots> = 0" by (simp add: exact_mean_def)
  finally show ?thesis .
qed

lemma exact_ops_sel:
  "total_seconds exact_ops d = d"
  "np_mean exact_ops = exact_mean"
  "np_std exact_ops = exact_std"
  "float_mul exact_ops x y = x * y"
  "float_div exact_ops x y = x / y"
  "timedelta_seconds exact_ops x =
     (if \<bar>x\<bar> < 86400 * 1000000000
      then Some (of_int (round_half_even (x * 1000000)) / 1000000) else None)"
  by (simp_all add: exact_ops_def)

lemma run_at_sel: "timestamp (run_at j t) = t" "JobExecution.job_id (run_at j t) = j"
  by (simp_all add: run_at_def)

lemma in_range_samples:
  "in_datetime_range 2700" "in_datetime_range 600" "in_datetime_range 660"
  "in_datetime_range 720" "in_datetime_range 4600" "in_datetime_range 10600"
  "in_datetime_range 840" "in_datetime_range 780" "in_datetime_range 300"
  "\<not> in_datetime_range 315537897600"
  "in_datetime_range (30023437 / 1000000)"
  by (simp_all add: in_datetime_range_def datetime_max_def)

lemma sample3_intervals:
  "intervals_of exact_ops [run_at ''etl'' 0, run_at ''etl'' 900, run_at ''etl'' 1800]
     = [900, 900]"
  by (simp add: intervals_of_simps run_at_sel exact_ops_sel)

lemma timedelta_900: "timedelta_seconds exact_ops 900 = Some 900"
  by (simp add: exact_ops_sel round_half_even_def)

lemma sample_etl_test:
  "exact_mean [900, 900] = 900" "exact_std [900, 900] = 0"
  "periodic_test exact_ops [run_at ''etl'' 0, run_at ''etl'' 900, run_at ''etl'' 1800]"
proof -
  show m: "exact_mean [900, 900] = 900" by (simp add: exact_mean_def)
  show s: "exact_std [900, 900] = 0"
    by (rule exact_std_eqI) (simp_all add: m, simp add: exact_mean_def)
  show "periodic_test exact_ops [run_at ''etl'' 0, run_at ''etl'' 900, run_at ''etl'' 1800]"
    by (simp add: periodic_test_def sample3_intervals exact_ops_sel m s)
qed

lemma sample_etl_analysis:
  "analyze_job_pattern exact_ops [run_at ''etl'' 0, run_at ''etl'' 900, run_at ''etl'' 1800]
   = Inr sample_cron"
  by (simp add: analyze_job_pattern_cases sample_etl_test sample3_intervals exact_ops_sel(2)
      timedelta_900 run_at_sel in_range_samples sample_cron_def)

lemma sample_hook_test:
  "\<not> periodic_test exact_ops
       [run_at ''hook'' 0, run_at ''hook'' 60, run_at ''hook'' 120, run_at ''hook'' 4000,
        run_at ''hook'' 10000]"
  "windows_in_range
       [run_at ''hook'' 0, run_at ''hook'' 60, run_at ''hook'' 120, run_at ''hook'' 4000,
        run_at ''hook'' 10000]"
  "spec_burst_test
       [run_at ''hook'' 0, run_at ''hook'' 60, run_at ''hook'' 120, run_at ''hook'' 4000,
        run_at ''hook'' 10000]"
proof -
  let ?b = "[run_at ''hook'' 0, run_at ''hook'' 60, run_at ''hook'' 120, run_at ''hook'' 4000,
        run_at ''hook'' 10000]"
  have ib: "intervals_of exact_ops ?b = [60, 60, 3880, 6000]"
    by (simp add: intervals_of_simps run_at_sel exact_ops_sel)
  have mb: "exact_mean [60, 60, 3880, 6000] = 2500" by (simp add: exact_mean_def)
  have "\<not> exact_std [60, 60, 3880, 6000] < 250"
    by (subst exact_std_less_iff) (simp_all add: mb, simp add: exact_mean_def)
  then show "\<not> periodic_test exact_ops ?b"
    by (simp add: periodic_test_def ib mb exact_ops_sel)
  show "windows_in_range ?b"
    by (simp add: windows_in_range_def run_at_sel in_range_samples)
  show "spec_burst_test ?b"
    by (simp add: spec_burst_test_def run_at_sel)
qed


lemma late_hourly_test:
  "intervals_of exact_ops late_hourly = [3600, 3600]"
  "periodic_test exact_ops late_hourly"
  "timedelta_seconds exact_ops 3600 = Some 3600"
  "timestamp (last late_hourly) = 315537894000"
proof -
  show i: "intervals_of exact_ops late_hourly = [3600, 3600]"
    by (simp add: late_hourly_def intervals_of_simps run_at_sel exact_ops_sel)
  have m: "exact_mean [3600, 3600] = 3600" by (simp add: exact_mean_def)
  have s: "exact_std [3600, 3600] = 0"
    by (rule exact_std_eqI) (simp_all add: m, simp add: exact_mean_def)
  show "periodic_test exact_ops late_hourly"
    by (simp add: periodic_test_def i exact_ops_sel m s, simp add: late_hourly_def)
  show "timedelta_seconds exact_ops 3600 = Some 3600"
    by (simp add: exact_ops_sel round_half_even_def)
  show "timestamp (last late_hourly) = 315537894000"
    by (simp add: late_hourly_def run_at_sel)
qed

lemma late_hourly_analysis: "analyze_job_pattern exact_ops late_hourly = Inl OverflowError"
proof -
  have "exact_mean [3600, 3600] = 3600" by (simp add: exact_mean_def)
  moreover have "2 \<le> length late_hourly" by (simp add: late_hourly_def)
  ultimately show ?thesis
    by (simp add: analyze_job_pattern_cases late_hourly_test exact_ops_sel(2) in_range_samples)
qed

lemma late_cluster_test:
  "\<not> periodic_test exact_ops late_cluster"
  "spec_burst_test late_cluster"
  "\<not> windows_in_range late_cluster"
proof -
  have i: "intervals_of exact_ops late_cluster = [0, 0, 0, 0]"
    by (simp add: late_cluster_def intervals_of_simps run_at_sel exact_ops_sel)
  have m: "exact_mean [0, 0, 0, 0] = 0" by (simp add: exact_mean_def)
  have s: "exact_std [0, 0, 0, 0] = 0"
    by (rule exact_std_eqI) (simp_all add: m exact_mean_def)
  show "\<not> periodic_test exact_ops late_cluster"
    by (simp add: periodic_test_def i exact_ops_sel m s)
  show "spec_burst_test late_cluster"
    by (simp add: spec_burst_test_def late_cluster_def run_at_sel)
  show "\<not> windows_in_range late_cluster"
    by (simp add: windows_in_range_def late_cluster_def run_at_sel in_range_samples)
qed

lemma late_cluster_analysis: "analyze_job_pattern exact_ops late_cluster = Inl OverflowError"
proof -
  have "2 \<le> length late_cluster" by (simp add: late_cluster_def)
  then show ?thesis
    by (simp add: analyze_job_pattern_cases late_cluster_test)
qed

lemma uneven_runs_test:
  "intervals_of exact_ops uneven_runs = [641 / 64, 10]"
  "exact_mean [641 / 64, 10] = 1281 / 128"
  "exact_std [641 / 64, 10] = 1 / 128"
  "periodic_test exact_ops uneven_runs"
  "timedelta_seconds exact_ops (1281 / 128) = Some (10007812 / 1000000)"
  "timestamp (last uneven_runs) = 1281 / 64"
proof -
  show i: "intervals_of exact_ops uneven_runs = [641 / 64, 10]"
    by (simp add: uneven_runs_def intervals_of_simps run_at_sel exact_ops_sel)
  show m: "exact_mean [641 / 64, 10] = 1281 / 128" by (simp add: exact_mean_def)
  show s: "exact_std [641 / 64, 10] = 1 / 128"
    by (rule exact_std_eqI) (simp_all add: m exact_mean_def power2_eq_square)
  show "periodic_test exact_ops uneven_runs"
    by (simp add: periodic_test_def i exact_ops_sel m s, simp add: uneven_runs_def)
  show "timedelta_seconds exact_ops (1281 / 128) = Some (10007812 / 1000000)"
    by (simp add: exact_ops_sel round_half_even_def)
  show "timestamp (last uneven_runs) = 1281 / 64"
    by (simp add: uneven_runs_def run_at_sel)
qed

lemma uneven_runs_analysis:
  "analyze_job_pattern exact_ops uneven_runs =
     Inr \<lparr>type = ''cron'', confidence = 0.9, interval_seconds = Some 10.0078125,
          next_predicted = Some 30.023437, burst_indicators = None, avg_interval = None,
          variability = None\<rparr>"
proof -
  have "2 \<le> length uneven_runs" by (simp add: uneven_runs_def)
  moreover have "in_datetime_range (1281 / 64 + 10007812 / 1000000)"
    by (simp add: in_datetime_range_def datetime_max_def)
  ultimately show ?thesis
    by (simp add: analyze_job_pattern_cases uneven_runs_test exact_ops_sel(2))
qed

lemma adhoc_test:
  "intervals_of exact_ops [run_at ''adhoc'' 0, run_at ''adhoc'' 100, run_at ''adhoc'' 400]
     = [100, 300]"
  "exact_mean [100, 300] = 200"
  "exact_std [100, 300] = 100"
  "\<not> periodic_test exact_ops [run_at ''adhoc'' 0, run_at ''adhoc'' 100, run_at ''adhoc'' 400]"
proof -
  show i: "intervals_of exact_ops
             [run_at ''adhoc'' 0, run_at ''adhoc'' 100, run_at ''adhoc'' 400] = [100, 300]"
    by (simp add: intervals_of_simps run_at_sel exact_ops_sel)
  show m: "exact_mean [100, 300] = 200" by (simp add: exact_mean_def)
  show s: "exact_std [100, 300] = 100"
    by (rule exact_std_eqI) (simp_all add: m exact_mean_def)
  show "\<not> periodic_test exact_ops
            [run_at ''adhoc'' 0, run_at ''adhoc'' 100, run_at ''adhoc'' 400]"
    by (simp add: periodic_test_def i m s exact_ops_sel)
qed

lemma tick_test:
  "periodic_test exact_ops
     [run_at ''tick'' 0, run_at ''tick'' 60, run_at ''tick'' 120, run_at ''tick'' 180,
      run_at ''tick'' 240]"
  "spec_burst_test
     [run_at ''tick'' 0, run_at ''tick'' 60, run_at ''tick'' 120, run_at ''tick'' 180,
      run_at ''tick'' 240]"
  "analyze_job_pattern exact_ops
     [run_at ''tick'' 0, run_at ''tick'' 60, run_at ''tick'' 120, run_at ''tick'' 180,
      run_at ''tick'' 240] =
     Inr \<lparr>type = ''cron'', confidence = 0.9, interval_seconds = Some 60,
          next_predicted = Some 300, burst_indicators = None, avg_interval = None,
          variability = None\<rparr>"
proof -
  let ?c = "[run_at ''tick'' 0, run_at ''tick'' 60, run_at ''tick'' 120, run_at ''tick'' 180,
        run_at ''tick'' 240]"
  have ic: "intervals_of exact_ops ?c = [60, 60, 60, 60]"
    by (simp add: intervals_of_simps run_at_sel exact_ops_sel)
  have mc: "exact_mean [60, 60, 60, 60] = 60" by (simp add: exact_mean_def)
  have sc: "exact_std [60, 60, 60, 60] = 0"
    by (rule exact_std_eqI) (simp_all add: mc exact_mean_def)
  show pc: "periodic_test exact_ops ?c"
    by (simp add: periodic_test_def ic mc sc exact_ops_sel)
  show "spec_burst_test ?c"
    by (simp add: spec_burst_test_def run_at_sel)
  have td: "timedelta_seconds exact_ops 60 = Some 60"
    by (simp add: exact_ops_sel round_half_even_def)
  show "analyze_job_pattern exact_ops ?c =
     Inr \<lparr>type = ''cron'', confidence = 0.9, interval_seconds = Some 60,
          next_predicted = Some 300, burst_indicators = None, avg_interval = None,
          variability = None\<rparr>"
    by (simp add: analyze_job_pattern_cases pc ic mc exact_ops_sel(2) td run_at_sel
        in_range_samples)
qed

subsection \<open>The periodic test\<close>

text \<open>
  C1, as amended. For a group of at least 3 records whose gaps have a standard deviation
  below a tenth of their mean, as the analysis computes the three in floating point, the
  analysis either returns a periodic (\<open>cron\<close>) pattern with confidence 0.9, whose interval
  is the mean gap and whose next run is the last timestamp plus \<open>timedelta(seconds=mean)\<close>,
  that is the mean gap rounded to microseconds, or raises \<open>OverflowError\<close> when that
  datetime is out of range. The order of the records plays no part, so the statement holds
  for the sorted groups of the analysis in particular.
\<close>

theorem periodic_classification:
  assumes "3 \<le> length executions"
    and "np_std ops (intervals_of ops executions)
           < float_mul ops (np_mean ops (intervals_of ops executions)) 0.1"
  shows "analyze_job_pattern ops executions =
           (case timedelta_seconds ops (np_mean ops (intervals_of ops executions)) of
              None \<Rightarrow> Inl OverflowError
            | Some td \<Rightarrow>
                if in_datetime_range (timestamp (last executions) + td) then
                  Inr \<lparr>type = ''cron'', confidence = 0.9,
                       interval_seconds = Some (np_mean ops (intervals_of ops executions)),
                       next_predicted = Some (timestamp (last executions) + td),
                       burst_indicators = None, avg_interval = None, variability = None\<rparr>
                else Inl OverflowError)"
  using assms by (simp add: analyze_job_pattern_cases periodic_test_def)

theorem periodic_classification_witness:
  "3 \<le> length [run_at ''etl'' 0, run_at ''etl'' 900, run_at ''etl'' 1800]
   \<and> np_std exact_ops
         (intervals_of exact_ops [run_at ''etl'' 0, run_at ''etl'' 900, run_at ''etl'' 1800])
       < float_mul exact_ops
           (np_mean exact_ops
              (intervals_of exact_ops
                 [run_at ''etl'' 0, run_at ''etl'' 900, run_at ''etl'' 1800])) 0.1
   \<and> analyze_job_pattern exact_ops
         [run_at ''etl'' 0, run_at ''etl'' 900, run_at ''etl'' 1800] =
       Inr \<lparr>type = ''cron'', confidence = 0.9, interval_seconds = Some 900,
            next_predicted = Some 2700, burst_indicators = None, avg_interval = None,
            variability = None\<rparr>"
proof -
  let ?ex = "[run_at ''etl'' 0, run_at ''etl'' 900, run_at ''etl'' 1800]"
  have l: "3 \<le> length ?ex" by simp
  have h: "np_std exact_ops (intervals_of exact_ops ?ex)
             < float_mul exact_ops (np_mean exact_ops (intervals_of exact_ops ?ex)) 0.1"
    using sample_etl_test(3) by (simp add: periodic_test_def)
  have m: "np_mean exact_ops (intervals_of exact_ops ?ex) = 900"
    by (simp add: sample3_intervals exact_ops_sel(2) sample_etl_test)
  have "timestamp (last ?ex) = 1800" by (simp add: run_at_sel)
  then show ?thesis
    using periodic_classification [OF l h] l h
    by (simp add: m timedelta_900 in_range_samples)
qed

text \<open>
  C1 as stated fails in two ways. For runs at 0, 10.015625 and 20.015625 seconds the mean
  gap is 10.0078125 seconds and the predicted run is 10.007812 seconds after the last
  one, not the mean gap after it. For hourly runs that end at 23:00 on the last day of
  \<open>datetime\<close> the periodic test holds and the analysis raises \<open>OverflowError\<close>.
\<close>

theorem next_run_rounded_or_out_of_range:
  "3 \<le> length uneven_runs
   \<and> np_std exact_ops (intervals_of exact_ops uneven_runs)
       < float_mul exact_ops (np_mean exact_ops (intervals_of exact_ops uneven_runs)) 0.1
   \<and> analyze_job_pattern exact_ops uneven_runs =
       Inr \<lparr>type = ''cron'', confidence = 0.9, interval_seconds = Some 10.0078125,
            next_predicted = Some 30.023437, burst_indicators = None, avg_interval = None,
            variability = None\<rparr>
   \<and> timestamp (last uneven_runs) + 10.0078125 \<noteq> 30.023437
   \<and> 3 \<le> length late_hourly
   \<and> np_std exact_ops (intervals_of exact_ops late_hourly)
       < float_mul exact_ops (np_mean exact_ops (intervals_of exact_ops late_hourly)) 0.1
   \<and> analyze_job_pattern exact_ops late_hourly = Inl OverflowError"
proof -
  have "3 \<le> length uneven_runs" by (simp add: uneven_runs_def)
  moreover have "np_std exact_ops (intervals_of exact_ops uneven_runs)
       < float_mul exact_ops (np_mean exact_ops (intervals_of exact_ops uneven_runs)) 0.1"
    using uneven_runs_test(4) by (simp add: periodic_test_def)
  moreover have "timestamp (last uneven_runs) + 10.0078125 \<noteq> 30.023437"
    by (simp add: uneven_runs_test(6))
  moreover have "3 \<le> length late_hourly" by (simp add: late_hourly_def)
  moreover have "np_std exact_ops (intervals_of exact_ops late_hourly)
       < float_mul exact_ops (np_mean exact_ops (intervals_of exact_ops late_hourly)) 0.1"
    using late_hourly_test(2) by (simp add: periodic_test_def)
  ultimately show ?thesis
    using uneven_runs_analysis late_hourly_analysis by blast
qed

subsection \<open>Equal gaps\<close>

text \<open>
  C5, as amended. Take a group of at least 3 records whose gaps are all equal to the same
  positive number \<open>g\<close>, and suppose that on these gaps \<open>np.mean\<close>, \<open>np.std\<close> and the
  product of the mean by 0.1 are each within a hundredth of the mean of their exact
  value. Then the computed mean is within a hundredth of \<open>g\<close>, and the analysis either
  returns a periodic (\<open>cron\<close>) pattern with confidence 0.9, whose interval is the computed
  mean and whose next run is the last timestamp plus \<open>timedelta(seconds=mean)\<close>, or raises
  \<open>OverflowError\<close> when that datetime is out of range.
\<close>

theorem equal_gaps_periodic:
  assumes "3 \<le> length executions"
    and "\<forall>x \<in> set (intervals_of ops executions). x = g"
    and "0 < g"
    and "\<bar>np_mean ops (intervals_of ops executions) - exact_mean (intervals_of ops executions)\<bar>
           \<le> exact_mean (intervals_of ops executions) / 100"
    and "\<bar>np_std ops (intervals_of ops executions) - exact_std (intervals_of ops executions)\<bar>
           \<le> exact_mean (intervals_of ops executions) / 100"
    and "\<bar>float_mul ops (np_mean ops (intervals_of ops executions)) 0.1
            - np_mean ops (intervals_of ops executions) / 10\<bar>
           \<le> np_mean ops (intervals_of ops executions) / 100"
  shows "\<bar>np_mean ops (intervals_of ops executions) - g\<bar> \<le> g / 100
         \<and> analyze_job_pattern ops executions =
           (case timedelta_seconds ops (np_mean ops (intervals_of ops executions)) of
              None \<Rightarrow> Inl OverflowError
            | Some td \<Rightarrow>
                if in_datetime_range (timestamp (last executions) + td) then
                  Inr \<lparr>type = ''cron'', confidence = 0.9,
                       interval_seconds = Some (np_mean ops (intervals_of ops executions)),
                       next_predicted = Some (timestamp (last executions) + td),
                       burst_indicators = None, avg_interval = None, variability = None\<rparr>
                else Inl OverflowError)"
proof -
  let ?gaps = "intervals_of ops executions"
  let ?avg = "np_mean ops ?gaps"
  let ?std = "np_std ops ?gaps"
  have ne: "?gaps \<noteq> []"
    using assms(1) by (simp add: intervals_of_empty_iff)
  have m: "exact_mean ?gaps = g" using ne assms(2) by (rule exact_mean_const)
  have s: "exact_std ?gaps = 0" using ne assms(2) by (rule exact_std_const)
  have a: "\<bar>?avg - g\<bar> \<le> g / 100" using assms(4) by (simp only: m)
  have b: "?std \<le> g / 100" using assms(5) by (simp add: m s)
  have c: "?avg / 10 - ?avg / 100 \<le> float_mul ops ?avg 0.1" using assms(6) by linarith
  have "?std < float_mul ops ?avg 0.1" using a b c assms(3) by linarith
  then have "periodic_test ops executions"
    using assms(1) by (simp add: periodic_test_def)
  then show ?thesis
    using assms(1) a by (simp add: analyze_job_pattern_cases)
qed

theorem equal_gaps_periodic_witness:
  "3 \<le> length [run_at ''etl'' 0, run_at ''etl'' 900, run_at ''etl'' 1800]
   \<and> intervals_of exact_ops [run_at ''etl'' 0, run_at ''etl'' 900, run_at ''etl'' 1800]
       = [900, 900]
   \<and> (0::real) < 900
   \<and> \<bar>np_mean exact_ops [900, 900] - exact_mean [900, 900]\<bar> \<le> exact_mean [900, 900] / 100
   \<and> \<bar>np_std exact_ops [900, 900] - exact_std [900, 900]\<bar> \<le> exact_mean [900, 900] / 100
   \<and> \<bar>float_mul exact_ops (np_mean exact_ops [900, 900]) 0.1
         - np_mean exact_ops [900, 900] / 10\<bar> \<le> np_mean exact_ops [900, 900] / 100
   \<and> analyze_job_pattern exact_ops
         [run_at ''etl'' 0, run_at ''etl'' 900, run_at ''etl'' 1800] =
       Inr \<lparr>type = ''cron'', confidence = 0.9, interval_seconds = Some 900,
            next_predicted = Some 2700, burst_indicators = None, avg_interval = None,
            variability = None\<rparr>"
proof -
  let ?ex = "[run_at ''etl'' 0, run_at ''etl'' 900, run_at ''etl'' 1800]"
  have l: "3 \<le> length ?ex" by simp
  have g: "\<forall>x \<in> set (intervals_of exact_ops ?ex). x = 900"
    by (simp add: sample3_intervals)
  have p: "(0::real) < 900" by simp
  have h1: "\<bar>np_mean exact_ops (intervals_of exact_ops ?ex)
              - exact_mean (intervals_of exact_ops ?ex)\<bar>
           \<le> exact_mean (intervals_of exact_ops ?ex) / 100"
    by (simp add: exact_ops_sel sample3_intervals sample_etl_test)
  have h2: "\<bar>np_std exact_ops (intervals_of exact_ops ?ex)
              - exact_std (intervals_of exact_ops ?ex)\<bar>
           \<le> exact_mean (intervals_of exact_ops ?ex) / 100"
    by (simp add: exact_ops_sel sample3_intervals sample_etl_test)
  have h3: "\<bar>float_mul exact_ops (np_mean exact_ops (intervals_of exact_ops ?ex)) 0.1
            - np_mean exact_ops (intervals_of exact_ops ?ex) / 10\<bar>
           \<le> np_mean exact_ops (intervals_of exact_ops ?ex) / 100"
    by (simp add: exact_ops_sel sample3_intervals sample_etl_test)
  have m: "np_mean exact_ops (intervals_of exact_ops ?ex) = 900"
    by (simp add: sample3_intervals exact_ops_sel(2) sample_etl_test)
  have "analyze_job_pattern exact_ops ?ex =
       Inr \<lparr>type = ''cron'', confidence = 0.9, interval_seconds = Some 900,
            next_predicted = Some 2700, burst_indicators = None, avg_interval = None,
            variability = None\<rparr>"
    using equal_gaps_periodic [OF l g p h1 h2 h3]
    by (simp add: m run_at_sel timedelta_900 in_range_samples)
  then show ?thesis
    using l sample3_intervals by (simp add: exact_ops_sel sample_etl_test)
qed

text \<open>
  C5 as stated fails when the constant gap is 0: three records with one and the same
  timestamp have the gaps \<open>[0, 0]\<close>, standard deviation 0 and mean 0, the strict
  comparison of the periodic test is false, and the group is classified \<open>on_demand\<close>. It
  also fails for hourly runs that end at 23:00 on the last day of \<open>datetime\<close>: the gaps
  are equal and the analysis raises \<open>OverflowError\<close>.
\<close>

theorem zero_gaps_not_periodic:
  "3 \<le> length [run_at ''job'' 0, run_at ''job'' 0, run_at ''job'' 0]
   \<and> intervals_of exact_ops [run_at ''job'' 0, run_at ''job'' 0, run_at ''job'' 0] = [0, 0]
   \<and> np_mean exact_ops [0, 0] = 0
   \<and> np_std exact_ops [0, 0] = 0
   \<and> analyze_job_pattern exact_ops [run_at ''job'' 0, run_at ''job'' 0, run_at ''job'' 0] =
       Inr \<lparr>type = ''on_demand'', confidence = 0.4, interval_seconds = None,
            next_predicted = None, burst_indicators = None, avg_interval = Some 0,
            variability = Some 1\<rparr>
   \<and> 3 \<le> length late_hourly
   \<and> intervals_of exact_ops late_hourly = [3600, 3600]
   \<and> analyze_job_pattern exact_ops late_hourly = Inl OverflowError"
proof -
  let ?ex = "[run_at ''job'' 0, run_at ''job'' 0, run_at ''job'' 0]"
  have i: "intervals_of exact_ops ?ex = [0, 0]"
    by (simp add: intervals_of_simps run_at_sel exact_ops_sel)
  have m: "exact_mean [0, 0] = 0" by (simp add: exact_mean_def)
  have s: "exact_std [0, 0] = 0" by (simp add: exact_std_def exact_mean_def)
  have "\<not> periodic_test exact_ops ?ex"
    by (simp add: periodic_test_def i m s exact_ops_sel)
  moreover have "\<not> spec_burst_test ?ex" by (simp add: spec_burst_test_def)
  moreover have "windows_in_range ?ex" by (simp add: windows_in_range_def)
  ultimately have "analyze_job_pattern exact_ops ?ex =
       Inr \<lparr>type = ''on_demand'', confidence = 0.4, interval_seconds = None,
            next_predicted = None, burst_indicators = None, avg_interval = Some 0,
            variability = Some 1\<rparr>"
    by (simp add: analyze_job_pattern_cases i m s exact_ops_sel)
  moreover have "3 \<le> length late_hourly" by (simp add: late_hourly_def)
  ultimately show ?thesis
    using i late_hourly_test(1) late_hourly_analysis
    by (simp add: exact_ops_sel m s)
qed

subsection \<open>Kinds and confidence\<close>

text \<open>
  C6. Every pattern that the analysis of a group returns has one of the four kinds
  \<open>insufficient_data\<close>, \<open>cron\<close> (periodic), \<open>bursty\<close> and \<open>on_demand\<close> (irregular), and a
  confidence in the closed interval from 0 to 1. When the analysis returns no pattern it
  has raised \<open>OverflowError\<close>.
\<close>

theorem summary_kind_and_confidence:
  "(analyze_job_pattern ops executions = Inr p
      \<longrightarrow> (type p = ''insufficient_data'' \<or> type p = ''cron'' \<or> type p = ''bursty''
           \<or> type p = ''on_demand'')
          \<and> 0 \<le> confidence p \<and> confidence p \<le> 1)
   \<and> (analyze_job_pattern ops executions = Inl e \<longrightarrow> e = OverflowError)"
  by (auto simp add: analyze_job_pattern_cases insufficient_data_def
      split: if_splits option.splits)

theorem summary_kind_and_confidence_witness:
  "analyze_job_pattern exact_ops [run_at ''etl'' 0, run_at ''etl'' 900, run_at ''etl'' 1800]
     = Inr sample_cron
   \<and> type sample_cron = ''cron''
   \<and> 0 \<le> confidence sample_cron \<and> confidence sample_cron \<le> 1
   \<and> analyze_job_pattern exact_ops late_hourly = Inl OverflowError"
  using summary_kind_and_confidence
    [of exact_ops "[run_at ''etl'' 0, run_at ''etl'' 900, run_at ''etl'' 1800]" sample_cron
      OverflowError]
    summary_kind_and_confidence [of exact_ops late_hourly sample_cron OverflowError]
    sample_etl_analysis late_hourly_analysis
  by (simp add: sample_cron_def)

subsection \<open>The fallback\<close>

text \<open>
  C7, as amended. The analysis of a group raises no error but \<open>OverflowError\<close>, and it
  returns a pattern exactly when the group has fewer than 2 records or no datetime sum of
  the analysis leaves the range of \<open>datetime\<close>. For a group of at least 2 records on which
  the periodic test and the burst test fail, and whose windows are in range, the pattern
  is irregular (\<open>on_demand\<close>) with confidence 0.4, \<open>avg_interval\<close> the mean gap and
  \<open>variability\<close> the quotient of the standard deviation by the mean when the mean is
  positive, and 1 otherwise.
\<close>

theorem irregular_fallback:
  "(analyze_job_pattern ops executions = Inl e \<longrightarrow> e = OverflowError)
   \<and> ((\<exists>p. analyze_job_pattern ops executions = Inr p)
        \<longleftrightarrow> (length executions < 2 \<or> additions_in_range ops executions))
   \<and> (2 \<le> length executions \<and> \<not> periodic_test ops executions
        \<and> windows_in_range executions \<and> \<not> spec_burst_test executions
      \<longrightarrow> analyze_job_pattern ops executions =
            Inr \<lparr>type = ''on_demand'', confidence = 0.4, interval_seconds = None,
                 next_predicted = None, burst_indicators = None,
                 avg_interval = Some (np_mean ops (intervals_of ops executions)),
                 variability =
                   Some (if 0 < np_mean ops (intervals_of ops executions)
                         then float_div ops (np_std ops (intervals_of ops executions))
                                (np_mean ops (intervals_of ops executions))
                         else 1)\<rparr>)"
proof (intro conjI impI)
  assume "analyze_job_pattern ops executions = Inl e"
  then show "e = OverflowError" by (rule analyze_job_pattern_error)
next
  show "(\<exists>p. analyze_job_pattern ops executions = Inr p)
        \<longleftrightarrow> (length executions < 2 \<or> additions_in_range ops executions)"
    by (rule analyze_job_pattern_returns)
next
  assume "2 \<le> length executions \<and> \<not> periodic_test ops executions
        \<and> windows_in_range executions \<and> \<not> spec_burst_test executions"
  then show "analyze_job_pattern ops executions =
            Inr \<lparr>type = ''on_demand'', confidence = 0.4, interval_seconds = None,
                 next_predicted = None, burst_indicators = None,
                 avg_interval = Some (np_mean ops (intervals_of ops executions)),
                 variability =
                   Some (if 0 < np_mean ops (intervals_of ops executions)
                         then float_div ops (np_std ops (intervals_of ops executions))
                                (np_mean ops (intervals_of ops executions))
                         else 1)\<rparr>"
    by (simp add: analyze_job_pattern_cases)
qed

theorem irregular_fallback_witness:
  "2 \<le> length [run_at ''adhoc'' 0, run_at ''adhoc'' 100, run_at ''adhoc'' 400]
   \<and> \<not> periodic_test exact_ops
         [run_at ''adhoc'' 0, run_at ''adhoc'' 100, run_at ''adhoc'' 400]
   \<and> windows_in_range [run_at ''adhoc'' 0, run_at ''adhoc'' 100, run_at ''adhoc'' 400]
   \<and> \<not> spec_burst_test [run_at ''adhoc'' 0, run_at ''adhoc'' 100, run_at ''adhoc'' 400]
   \<and> additions_in_range exact_ops
         [run_at ''adhoc'' 0, run_at ''adhoc'' 100, run_at ''adhoc'' 400]
   \<and> analyze_job_pattern exact_ops
         [run_at ''adhoc'' 0, run_at ''adhoc'' 100, run_at ''adhoc'' 400] =
       Inr \<lparr>type = ''on_demand'', confidence = 0.4, interval_seconds = None,
            next_predicted = None, burst_indicators = None, avg_interval = Some 200,
            variability = Some (1 / 2)\<rparr>
   \<and> \<not> additions_in_range exact_ops late_hourly
   \<and> analyze_job_pattern exact_ops late_hourly = Inl OverflowError"
proof -
  let ?ex = "[run_at ''adhoc'' 0, run_at ''adhoc'' 100, run_at ''adhoc'' 400]"
  have l: "2 \<le> length ?ex" by simp
  have np: "\<not> periodic_test exact_ops ?ex" by (rule adhoc_test)
  have w: "windows_in_range ?ex" by (simp add: windows_in_range_def)
  have nb: "\<not> spec_burst_test ?ex" by (simp add: spec_burst_test_def)
  have a: "additions_in_range exact_ops ?ex"
    using np w by (simp add: additions_in_range_def)
  have r: "analyze_job_pattern exact_ops ?ex =
       Inr \<lparr>type = ''on_demand'', confidence = 0.4, interval_seconds = None,
            next_predicted = None, burst_indicators = None, avg_interval = Some 200,
            variability = Some (1 / 2)\<rparr>"
    using irregular_fallback [of exact_ops ?ex] l np w nb
    by (simp add: adhoc_test exact_ops_sel)
  have "\<not> (length late_hourly < 2 \<or> additions_in_range exact_ops late_hourly)"
    using irregular_fallback [of exact_ops late_hourly] late_hourly_analysis by simp
  then have "\<not> additions_in_range exact_ops late_hourly" by blast
  with l np w nb a r late_hourly_analysis show ?thesis by blast
qed

text \<open>
  C7 as stated fails on a group of a single record: the periodic test fails (fewer than 3
  records), the burst test fails (fewer than 5 records), and the group is classified
  \<open>insufficient_data\<close> with confidence 0.1, not irregular with confidence 0.4. It also
  fails on the non-empty group of hourly runs that end at 23:00 on the last day of
  \<open>datetime\<close>, for which the analysis raises \<open>OverflowError\<close>.
\<close>

theorem single_record_not_irregular:
  "\<not> periodic_test exact_ops [run_at ''job'' 0]
   \<and> \<not> spec_burst_test [run_at ''job'' 0]
   \<and> analyze_job_pattern exact_ops [run_at ''job'' 0] =
       Inr \<lparr>type = ''insufficient_data'', confidence = 0.1, interval_seconds = None,
            next_predicted = None, burst_indicators = None, avg_interval = None,
            variability = None\<rparr>
   \<and> late_hourly \<noteq> []
   \<and> analyze_job_pattern exact_ops late_hourly = Inl OverflowError"
  using late_hourly_analysis
  by (simp add: periodic_test_def spec_burst_test_def analyze_job_pattern_cases
      insufficient_data_def late_hourly_def)

subsection \<open>The burst test\<close>

text \<open>
  C3, as amended. When the periodic test fails and the windows of the group are in range,
  the analysis returns a pattern, which is \<open>bursty\<close> with confidence 0.7 exactly when the
  burst test of the specification holds (at least 5 records, and 3 or more of them in the
  10-minute window, both ends included, that starts at some record). When the periodic
  test fails and a window is out of range, the analysis raises \<open>OverflowError\<close>. When
  the periodic and the burst test both hold, a pattern that the analysis returns is
  periodic (\<open>cron\<close>), not \<open>bursty\<close>, and it returns one unless it raises \<open>OverflowError\<close>.
\<close>

theorem burst_classification:
  "(\<not> periodic_test ops executions \<and> windows_in_range executions
      \<longrightarrow> (\<exists>p. analyze_job_pattern ops executions = Inr p
               \<and> ((type p = ''bursty'' \<and> confidence p = 0.7)
                    \<longleftrightarrow> spec_burst_test executions)))
   \<and> (\<not> periodic_test ops executions \<and> \<not> windows_in_range executions
      \<longrightarrow> analyze_job_pattern ops executions = Inl OverflowError)
   \<and> (periodic_test ops executions \<and> spec_burst_test executions
      \<longrightarrow> (\<forall>p. analyze_job_pattern ops executions = Inr p
                  \<longrightarrow> type p = ''cron'' \<and> type p \<noteq> ''bursty'')
          \<and> (\<forall>e. analyze_job_pattern ops executions = Inl e \<longrightarrow> e = OverflowError))"
proof (intro conjI impI)
  assume a: "\<not> periodic_test ops executions \<and> windows_in_range executions"
  show "\<exists>p. analyze_job_pattern ops executions = Inr p
            \<and> ((type p = ''bursty'' \<and> confidence p = 0.7) \<longleftrightarrow> spec_burst_test executions)"
  proof (cases "length executions < 2")
    case True
    then have "\<not> spec_burst_test executions" by (simp add: spec_burst_test_def)
    with True show ?thesis
      by (simp add: analyze_job_pattern_cases insufficient_data_def)
  next
    case False
    with a show ?thesis by (simp add: analyze_job_pattern_cases)
  qed
next
  assume a: "\<not> periodic_test ops executions \<and> \<not> windows_in_range executions"
  then have "5 \<le> length executions" by (auto simp add: windows_in_range_def)
  with a show "analyze_job_pattern ops executions = Inl OverflowError"
    by (simp add: analyze_job_pattern_cases)
next
  assume a: "periodic_test ops executions \<and> spec_burst_test executions"
  then have "\<not> length executions < 2" by (simp add: spec_burst_test_def)
  with a show "\<forall>p. analyze_job_pattern ops executions = Inr p
                  \<longrightarrow> type p = ''cron'' \<and> type p \<noteq> ''bursty''"
    by (auto simp add: analyze_job_pattern_cases split: option.splits if_splits)
next
  show "\<forall>e. analyze_job_pattern ops executions = Inl e \<longrightarrow> e = OverflowError"
    by (auto dest: analyze_job_pattern_error)
qed

theorem burst_classification_witness:
  "\<not> periodic_test exact_ops
       [run_at ''hook'' 0, run_at ''hook'' 60, run_at ''hook'' 120, run_at ''hook'' 4000,
        run_at ''hook'' 10000]
   \<and> windows_in_range
       [run_at ''hook'' 0, run_at ''hook'' 60, run_at ''hook'' 120, run_at ''hook'' 4000,
        run_at ''hook'' 10000]
   \<and> spec_burst_test
       [run_at ''hook'' 0, run_at ''hook'' 60, run_at ''hook'' 120, run_at ''hook'' 4000,
        run_at ''hook'' 10000]
   \<and> (\<exists>p. analyze_job_pattern exact_ops
              [run_at ''hook'' 0, run_at ''hook'' 60, run_at ''hook'' 120,
               run_at ''hook'' 4000, run_at ''hook'' 10000] = Inr p
            \<and> type p = ''bursty'' \<and> confidence p = 0.7)
   \<and> periodic_test exact_ops
       [run_at ''tick'' 0, run_at ''tick'' 60, run_at ''tick'' 120, run_at ''tick'' 180,
        run_at ''tick'' 240]
   \<and> spec_burst_test
       [run_at ''tick'' 0, run_at ''tick'' 60, run_at ''tick'' 120, run_at ''tick'' 180,
        run_at ''tick'' 240]
   \<and> (\<exists>q. analyze_job_pattern exact_ops
              [run_at ''tick'' 0, run_at ''tick'' 60, run_at ''tick'' 120,
               run_at ''tick'' 180, run_at ''tick'' 240] = Inr q
            \<and> type q = ''cron'' \<and> type q \<noteq> ''bursty'')"
proof -
  let ?b = "[run_at ''hook'' 0, run_at ''hook'' 60, run_at ''hook'' 120, run_at ''hook'' 4000,
        run_at ''hook'' 10000]"
  let ?c = "[run_at ''tick'' 0, run_at ''tick'' 60, run_at ''tick'' 120, run_at ''tick'' 180,
        run_at ''tick'' 240]"
  note b = sample_hook_test
  note c = tick_test
  have "\<exists>p. analyze_job_pattern exact_ops ?b = Inr p \<and> type p = ''bursty''
           \<and> confidence p = 0.7"
    using burst_classification [of exact_ops ?b] b by blast
  moreover
  have "\<exists>q. analyze_job_pattern exact_ops ?c = Inr q \<and> type q = ''cron''
           \<and> type q \<noteq> ''bursty''"
    using burst_classification [of exact_ops ?c] c by blast
  ultimately show ?thesis using b c(1,2) by blast
qed

text \<open>
  C3 as stated fails for five runs at 23:50 on the last day of \<open>datetime\<close>: the periodic
  test fails, the burst test of the specification holds, and the analysis raises
  \<open>OverflowError\<close> instead of classifying the group as \<open>bursty\<close>.
\<close>

theorem burst_near_datetime_max:
  "\<not> periodic_test exact_ops late_cluster
   \<and> 5 \<le> length late_cluster
   \<and> spec_burst_test late_cluster
   \<and> analyze_job_pattern exact_ops late_cluster = Inl OverflowError"
  using late_cluster_test late_cluster_analysis
  by (simp add: late_cluster_def)

subsection \<open>Rendering and generation\<close>

lemma str_int_nonneg: "0 \<le> i \<Longrightarrow> str_int i = str_nat (nat i)"
  by (simp add: str_int_def)

lemma str_nat_two_digits:
  "n < 100 \<Longrightarrow> replicate (2 - length (str_nat n)) (CHR ''0'') @ str_nat n
                 = [digit_char (n div 10), digit_char (n mod 10)]"
proof (cases "n < 10")
  case True
  then show ?thesis by (simp add: str_nat.simps [of n] digit_char_def)
next
  case False
  assume "n < 100"
  with False have "n div 10 < 10" by simp
  with False show ?thesis
    by (simp add: str_nat.simps [of n] str_nat.simps [of "n div 10"])
qed

lemma format_02d_two_digits:
  assumes "0 \<le> i" and "i < 100"
  shows "format_02d i = [digit_char (nat i div 10), digit_char (nat i mod 10)]"
proof -
  have "nat i < 100" using assms by simp
  from str_nat_two_digits [OF this] assms(1) show ?thesis
    by (simp add: format_02d_def Let_def)
qed

lemma floor_div_60: "\<lfloor>x / 60\<rfloor> = \<lfloor>x::real\<rfloor> div 60"
  using floor_divide_real_eq_div [of 60 x] by simp

lemma floor_fmod_60: "\<lfloor>py_fmod x 60\<rfloor> = \<lfloor>x\<rfloor> mod 60"
proof -
  have "py_fmod x 60 = x - of_int (60 * (\<lfloor>x\<rfloor> div 60))"
    by (simp add: py_fmod_def floor_div_60)
  then have "\<lfloor>py_fmod x 60\<rfloor> = \<lfloor>x\<rfloor> - 60 * (\<lfloor>x\<rfloor> div 60)"
    by (simp only: floor_diff_of_int)
  also have "\<dots> = \<lfloor>x\<rfloor> mod 60" by (simp add: minus_mult_div_eq_mod)
  finally show ?thesis .
qed

lemma py_fmod_60_nonneg: "0 \<le> py_fmod x 60"
proof -
  have "of_int \<lfloor>x / 60\<rfloor> \<le> x / 60" by (rule of_int_floor_le)
  then show ?thesis by (simp add: py_fmod_def)
qed

lemma window_rendering:
  assumes "0 \<le> d"
  shows "str_int (py_int (d / 60)) @ '':'' @ format_02d (py_int (py_fmod d 60))
           = spec_minutes_seconds d"
proof -
  have f: "0 \<le> \<lfloor>d\<rfloor>" using assms by simp
  have m: "str_int (py_int (d / 60)) = str_nat (nat \<lfloor>d\<rfloor> div 60)"
    using assms f by (simp add: py_int_def floor_div_60 str_int_nonneg pos_imp_zdiv_nonneg_iff
        nat_div_distrib)
  have s0: "py_int (py_fmod d 60) = \<lfloor>d\<rfloor> mod 60"
    by (simp add: py_int_def py_fmod_60_nonneg floor_fmod_60)
  have "format_02d (\<lfloor>d\<rfloor> mod 60)
          = [digit_char (nat (\<lfloor>d\<rfloor> mod 60) div 10), digit_char (nat (\<lfloor>d\<rfloor> mod 60) mod 10)]"
    by (rule format_02d_two_digits) simp_all
  moreover have "nat (\<lfloor>d\<rfloor> mod 60) = nat \<lfloor>d\<rfloor> mod 60"
    using f by (simp add: nat_mod_distrib)
  ultimately show ?thesis
    by (simp add: m s0 spec_minutes_seconds_def Let_def)
qed

lemma format_0f_900: "format_0f 900 = ''900''"
  by (simp add: format_0f_def round_half_even_def str_nat.simps digit_char_def)

lemma spec_minutes_seconds_samples:
  "spec_minutes_seconds 100 = ''1:40''"
  "spec_minutes_seconds 0 = ''0:00''"
  "spec_minutes_seconds 300 = ''5:00''"
  by (simp_all add: spec_minutes_seconds_def Let_def str_nat.simps digit_char_def)

lemma generate_prediction_total:
  "spec_summary p \<Longrightarrow> \<exists>r. generate_prediction jid p now = Inr r"
  by (auto simp add: generate_prediction_def spec_summary_def Let_def)



lemma collect_predictions_total:
  "\<forall>(j, q) \<in> set ps. spec_summary q \<Longrightarrow> \<exists>preds. collect_predictions ps now = Inr preds"
proof (induction ps)
  case Nil
  show ?case by simp
next
  case (Cons a ps)
  obtain j q where a: "a = (j, q)" by (cases a)
  from Cons.prems a obtain r where "generate_prediction j q now = Inr r"
    using generate_prediction_total [of q j now] by auto
  moreover from Cons obtain preds where "collect_predictions ps now = Inr preds" by auto
  ultimately show ?case by (simp add: a)
qed



lemma sorted_reverse_descending:
  "sorted_wrt (\<lambda>a b. key b \<le> key a) (sorted_reverse key xs)"
proof -
  have "sorted (map (\<lambda>x. - key x) (sort_key (\<lambda>x. - key x) xs))"
    by (rule sorted_sort_key)
  then show ?thesis by (simp add: sorted_reverse_def sorted_map)
qed

lemma sorted_reverse_stable:
  "filter (\<lambda>x. key x = c) (sorted_reverse key xs) = filter (\<lambda>x. key x = c) xs"
  using sort_key_stable [of "\<lambda>x. - key x" "- c" xs] by (simp add: sorted_reverse_def)



lemma sample_generate:
  "generate_prediction ''etl'' sample_cron 2600 = Inr (Some etl_result)"
  "generate_prediction jid sample_bursty 2600 = Inr (Some (burst_result jid))"
  "generate_prediction jid sample_on_demand 2600 = Inr None"
  "generate_prediction jid insufficient_data 2600 = Inr None"
proof -
  have "(0::real) \<le> 100" by simp
  from window_rendering [OF this]
  show "generate_prediction ''etl'' sample_cron 2600 = Inr (Some etl_result)"
    by (simp add: generate_prediction_def Let_def sample_cron_def etl_result_def
        format_0f_900 spec_minutes_seconds_samples)
  show "generate_prediction jid sample_bursty 2600 = Inr (Some (burst_result jid))"
    by (simp add: generate_prediction_def sample_bursty_def burst_result_def)
  show "generate_prediction jid sample_on_demand 2600 = Inr None"
    by (simp add: generate_prediction_def sample_on_demand_def)
  show "generate_prediction jid insufficient_data 2600 = Inr None"
    by (simp add: generate_prediction_def insufficient_data_def)
qed

lemma sample_spec_summary:
  "spec_summary sample_cron" "spec_summary sample_bursty" "spec_summary sample_on_demand"
  "spec_summary insufficient_data"
  by (simp_all add: spec_summary_def sample_cron_def sample_bursty_def sample_on_demand_def
      insufficient_data_def)

lemma sample_scores:
  "confidence_score etl_result = 0.9" "confidence_score (burst_result jid) = 0.7"
  "job_id etl_result = ''etl''" "job_id (burst_result jid) = jid"
  "action etl_result = ''prewarm''" "action (burst_result jid) = ''prewarm''"
  by (simp_all add: etl_result_def burst_result_def)






subsection \<open>Predictions for periodic jobs\<close>

text \<open>
  C2. For a periodic (\<open>cron\<close>) summary that carries its next run and its interval, and a
  reference time \<open>now\<close>, let the delay be the next run minus \<open>now\<close>. A prediction is
  returned exactly when the delay lies between 0 and 300 seconds, both bounds included,
  and none otherwise. The window of the prediction is the delay rendered as
  \<open>minutes:seconds\<close> (followed by the word \<open>minutes\<close>), its confidence is that of the
  summary, and its action is \<open>prewarm\<close> when the confidence exceeds 0.7 and \<open>skip\<close>
  otherwise.
\<close>

theorem periodic_prediction:
  assumes "type p = ''cron''"
    and "next_predicted p = Some next_run"
    and "interval_seconds p = Some iv"
  shows "generate_prediction jid p now =
           (if 0 \<le> next_run - now \<and> next_run - now \<le> 300 then
              Inr (Some
                \<lparr>job_id = jid,
                 predicted_run_time_window = spec_minutes_seconds (next_run - now) @ '' minutes'',
                 confidence_score = confidence p,
                 action = (if 0.7 < confidence p then ''prewarm'' else ''skip''),
                 reasoning = ''Cron pattern detected with '' @ format_0f iv @ ''s intervals''\<rparr>)
            else Inr None)"
proof (cases "0 \<le> next_run - now \<and> next_run - now \<le> 300")
  case True
  then have "0 \<le> next_run - now" by simp
  from window_rendering [OF this] True assms show ?thesis
    by (simp add: generate_prediction_def Let_def)
next
  case False
  with assms show ?thesis
    by (auto simp add: generate_prediction_def Let_def)
qed

theorem periodic_prediction_witness:
  "type sample_cron = ''cron'' \<and> next_predicted sample_cron = Some 2700
   \<and> interval_seconds sample_cron = Some 900
   \<and> generate_prediction ''etl'' sample_cron 2600 =
       Inr (Some \<lparr>job_id = ''etl'', predicted_run_time_window = ''1:40 minutes'',
                  confidence_score = 0.9, action = ''prewarm'',
                  reasoning = ''Cron pattern detected with 900s intervals''\<rparr>)
   \<and> generate_prediction ''etl'' sample_cron 2700 =
       Inr (Some \<lparr>job_id = ''etl'', predicted_run_time_window = ''0:00 minutes'',
                  confidence_score = 0.9, action = ''prewarm'',
                  reasoning = ''Cron pattern detected with 900s intervals''\<rparr>)
   \<and> generate_prediction ''etl'' sample_cron 2400 =
       Inr (Some \<lparr>job_id = ''etl'', predicted_run_time_window = ''5:00 minutes'',
                  confidence_score = 0.9, action = ''prewarm'',
                  reasoning = ''Cron pattern detected with 900s intervals''\<rparr>)
   \<and> generate_prediction ''etl'' (sample_cron\<lparr>confidence := 0.7\<rparr>) 2600 =
       Inr (Some \<lparr>job_id = ''etl'', predicted_run_time_window = ''1:40 minutes'',
                  confidence_score = 0.7, action = ''skip'',
                  reasoning = ''Cron pattern detected with 900s intervals''\<rparr>)
   \<and> generate_prediction ''etl'' sample_cron 2399.999 = Inr None
   \<and> generate_prediction ''etl'' sample_cron 2700.001 = Inr None"
proof -
  have t: "type sample_cron = ''cron''" "type (sample_cron\<lparr>confidence := 0.7\<rparr>) = ''cron''"
    by (simp_all add: sample_cron_def)
  have n: "next_predicted sample_cron = Some 2700"
    "next_predicted (sample_cron\<lparr>confidence := 0.7\<rparr>) = Some 2700"
    by (simp_all add: sample_cron_def)
  have i: "interval_seconds sample_cron = Some 900"
    "interval_seconds (sample_cron\<lparr>confidence := 0.7\<rparr>) = Some 900"
    by (simp_all add: sample_cron_def)
  have c: "confidence sample_cron = 0.9" by (simp add: sample_cron_def)
  note g = periodic_prediction [OF t(1) n(1) i(1), of "''etl''"]
  note g' = periodic_prediction [OF t(2) n(2) i(2), of "''etl''" 2600]
  show ?thesis
    using g [of 2600] g [of 2700] g [of 2400] g' g [of "2399.999"] g [of "2700.001"] t(1) n(1) i(1)
    by (simp add: c format_0f_900 spec_minutes_seconds_samples)
qed

subsection \<open>Predictions for bursty jobs\<close>

text \<open>
  C4, as amended. For a \<open>bursty\<close> summary whose confidence exceeds 0.6 a prediction is
  returned whatever the reference time; its window is the fixed string \<open>1-3 minutes\<close>,
  its action is \<open>prewarm\<close> and its confidence is that of the summary.
\<close>

theorem burst_prediction:
  assumes "type p = ''bursty''" and "0.6 < confidence p"
  shows "generate_prediction jid p now =
           Inr (Some
             \<lparr>job_id = jid,
              predicted_run_time_window = ''1-3 minutes'',
              confidence_score = confidence p,
              action = ''prewarm'',
              reasoning = ''Burst pattern detected - high activity expected''\<rparr>)"
  using assms by (simp add: generate_prediction_def)

theorem burst_prediction_witness:
  "type sample_bursty = ''bursty'' \<and> 0.6 < confidence sample_bursty
   \<and> generate_prediction ''hook'' sample_bursty 0 =
       Inr (Some \<lparr>job_id = ''hook'', predicted_run_time_window = ''1-3 minutes'',
                  confidence_score = 0.7, action = ''prewarm'',
                  reasoning = ''Burst pattern detected - high activity expected''\<rparr>)"
proof -
  have t: "type sample_bursty = ''bursty''" by (simp add: sample_bursty_def)
  have c: "0.6 < confidence sample_bursty" by (simp add: sample_bursty_def)
  have "confidence sample_bursty = 0.7" by (simp add: sample_bursty_def)
  then show ?thesis
    using burst_prediction [OF t c, of "''hook''" 0] t c by simp
qed

text \<open>
  C4 as stated names another window: the prediction for a bursty summary carries the
  string \<open>1-3 minutes\<close>, which is not the string of the specification.
\<close>

theorem burst_window_is_not_spec_string:
  "type sample_bursty = ''bursty'' \<and> 0.6 < confidence sample_bursty
   \<and> generate_prediction ''hook'' sample_bursty 0 =
       Inr (Some \<lparr>job_id = ''hook'', predicted_run_time_window = ''1-3 minutes'',
                  confidence_score = 0.7, action = ''prewarm'',
                  reasoning = ''Burst pattern detected - high activity expected''\<rparr>)
   \<and> ''1-3 minutes'' \<noteq> spec_burst_window"
  by (simp add: generate_prediction_def sample_bursty_def spec_burst_window_def)

subsection \<open>The order of the predictions\<close>

text \<open>
  C8. For summaries that carry their periodic fields and any reference time, the
  predictions are returned sorted by confidence, highest first, and predictions of equal
  confidence stand in the order in which the loop over the summaries produced them: the
  order of ties is a function of the input, the same at every call.
\<close>

theorem predictions_sorted_stable:
  assumes "\<forall>(j, q) \<in> set ps. spec_summary q"
  shows "\<exists>preds out.
           collect_predictions ps now = Inr preds
           \<and> predict_from_patterns ps now = Inr out
           \<and> sorted_wrt (\<lambda>a b. confidence_score b \<le> confidence_score a) out
           \<and> (\<forall>c. filter (\<lambda>r. confidence_score r = c) out
                    = filter (\<lambda>r. confidence_score r = c) preds)"
proof -
  from collect_predictions_total [OF assms] obtain preds
    where p: "collect_predictions ps now = Inr preds" by blast
  then have "predict_from_patterns ps now = Inr (sorted_reverse confidence_score preds)"
    by (simp add: predict_from_patterns_def)
  with p show ?thesis
    by (simp add: sorted_reverse_descending sorted_reverse_stable)
qed

theorem predictions_sorted_stable_witness:
  "spec_summary sample_bursty \<and> spec_summary sample_cron
   \<and> collect_predictions
        [(''hook'', sample_bursty), (''etl'', sample_cron), (''push'', sample_bursty)] 2600
      = Inr [burst_result ''hook'', etl_result, burst_result ''push'']
   \<and> predict_from_patterns
        [(''hook'', sample_bursty), (''etl'', sample_cron), (''push'', sample_bursty)] 2600
      = Inr [etl_result, burst_result ''hook'', burst_result ''push'']
   \<and> filter (\<lambda>r. confidence_score r = 0.7)
        [etl_result, burst_result ''hook'', burst_result ''push'']
      = [burst_result ''hook'', burst_result ''push'']"
proof -
  let ?ps = "[(''hook'', sample_bursty), (''etl'', sample_cron), (''push'', sample_bursty)]"
  have ok: "\<forall>(j, q) \<in> set ?ps. spec_summary q"
    by (simp add: sample_spec_summary)
  have c: "collect_predictions ?ps 2600
      = Inr [burst_result ''hook'', etl_result, burst_result ''push'']"
    by (simp add: sample_generate)
  from predictions_sorted_stable [OF ok, of 2600] obtain preds out where
    p: "collect_predictions ?ps 2600 = Inr preds"
    and out: "predict_from_patterns ?ps 2600 = Inr out"
    and tie: "\<forall>c. filter (\<lambda>r. confidence_score r = c) out
         = filter (\<lambda>r. confidence_score r = c) preds"
    by blast
  from p [unfolded c] have preds:
    "preds = [burst_result ''hook'', etl_result, burst_result ''push'']"
    by simp
  have o: "out = [etl_result, burst_result ''hook'', burst_result ''push'']"
    using out c by (simp add: predict_from_patterns_def sorted_reverse_def sample_scores)
  from tie have "filter (\<lambda>r. confidence_score r = 0.7) out
         = filter (\<lambda>r. confidence_score r = 0.7) preds" by blast
  then have "filter (\<lambda>r. confidence_score r = 0.7)
        [etl_result, burst_result ''hook'', burst_result ''push'']
      = [burst_result ''hook'', burst_result ''push'']"
    unfolding o preds by (simp add: sample_scores)
  with sample_spec_summary c out o show ?thesis by blast
qed

subsection \<open>One prediction per eligible summary\<close>



subsection \<open>The action of the predictions\<close>



end
